theory Spec2Isabelle
  imports Main "HOL-Library.Word"
begin

section \<open>The arguments of the component\<close>

text \<open>
  \<^verbatim>\<open>Downloader.tsx\<close> is one React function component. Its props come from the host:
  \<^verbatim>\<open>args\<close> with the three fields the component destructures, and the two flags
  \<^verbatim>\<open>disabled\<close> and \<^verbatim>\<open>theme\<close>. The payload is a string or a byte-like object; the type
  of the theme object is declared by the host library, so it stays a type parameter.
\<close>

datatype payload = StringData string | ByteData "8 word list"

record download_args =
  data :: payload
  filename :: string
  content_type :: string

record 'th component_props =
  args :: download_args
  disabled :: bool
  theme :: "'th option"

section \<open>The browser the component runs in\<close>

text \<open>
  The state the component's calls read and write: the blobs, the blob URL store, the
  URLs revoked so far, the nodes of the document and the children of its body, the files
  handed to the save mechanism, the messages posted to the host, the job queue of settled
  promises and the rejections nobody handled. \<open>log\<close> records every call in the order it
  was made. \<open>faulty\<close> is the set of browser calls that raise in this browser.
\<close>

type_synonym blob_id = nat
type_synonym object_url = nat
type_synonym node_id = nat

record blob =
  blob_parts :: "payload list"
  blob_type :: string

record element =
  tag_name :: string
  href :: "object_url option"
  download :: "string option"

record saved_file =
  save_name :: string
  save_type :: string
  save_content :: "payload list"

datatype api =
  ApiBlob | ApiCreateObjectURL | ApiCreateElement | ApiSetHref | ApiSetDownload
  | ApiAppendChild | ApiClick | ApiRemoveChild | ApiRevokeObjectURL

datatype error = BrowserError api | NotFoundError

datatype host_message = ComponentValue int | FrameHeight int

datatype event =
  EvNewBlob blob_id
  | EvCreateObjectURL blob_id object_url
  | EvCreateElement node_id
  | EvSetHref node_id object_url
  | EvSetDownload node_id string
  | EvAppendChild node_id
  | EvClick node_id
  | EvRemoveChild node_id
  | EvRevokeObjectURL object_url
  | EvHost host_message

datatype settled = Fulfilled | Rejected error

datatype job = PassThrough settled

record browser =
  blobs :: "(blob_id \<times> blob) list"
  urls :: "(object_url \<times> blob_id) list"
  revoked :: "object_url list"
  nodes :: "(node_id \<times> element) list"
  body :: "node_id list"
  downloads :: "saved_file list"
  host :: "host_message list"
  log :: "event list"
  faulty :: "api set"
  microtasks :: "job list"
  unhandled :: "error list"

text \<open>A statement either returns a value or throws; the state it changed stays changed.\<close>

datatype 'a outcome = Returned 'a | Threw error

type_synonym 'a js = "browser \<Rightarrow> 'a outcome \<times> browser"

definition bind_js :: "'a js \<Rightarrow> ('a \<Rightarrow> 'b js) \<Rightarrow> 'b js" where
  "bind_js m f b =
     (case m b of
        (Threw e, b') \<Rightarrow> (Threw e, b')
      | (Returned x, b') \<Rightarrow> f x b')"

definition raising :: "api \<Rightarrow> 'a js \<Rightarrow> 'a js" where
  "raising k m b = (if k \<in> faulty b then (Threw (BrowserError k), b) else m b)"

text \<open>
  A new blob, URL or node gets an identity no existing one has; a URL is never issued a
  second time, not even after it was revoked.
\<close>

definition fresh :: "nat list \<Rightarrow> nat" where
  "fresh ks = Suc (fold max ks 0)"

definition new_blob :: "browser \<Rightarrow> blob_id" where
  "new_blob b = fresh (map fst (blobs b))"

definition new_url :: "browser \<Rightarrow> object_url" where
  "new_url b = fresh (map fst (urls b) @ revoked b)"

definition new_node :: "browser \<Rightarrow> node_id" where
  "new_node b = fresh (map fst (nodes b) @ body b)"

definition update_node :: "node_id \<Rightarrow> (element \<Rightarrow> element) \<Rightarrow> (node_id \<times> element) list
    \<Rightarrow> (node_id \<times> element) list" where
  "update_node n f ns = map (\<lambda>(i, e). if i = n then (i, f e) else (i, e)) ns"

subsection \<open>The calls \<^verbatim>\<open>triggerDownload\<close> makes\<close>

text \<open>
  What the browser's \<^verbatim>\<open>Blob\<close> constructor makes of the \<^verbatim>\<open>type\<close> option it is given (this is
  the browser's doing, not the component's): a string with a character outside
  U+0020..U+007E gives the empty type, any other string is taken with its ASCII upper-case
  letters turned to lower case.
\<close>

definition printable_ascii :: "char \<Rightarrow> bool" where
  "printable_ascii c = (32 \<le> (of_char c :: nat) \<and> (of_char c :: nat) \<le> 126)"

definition ascii_upper :: "char \<Rightarrow> bool" where
  "ascii_upper c = (65 \<le> (of_char c :: nat) \<and> (of_char c :: nat) \<le> 90)"

definition ascii_lowercase :: "char \<Rightarrow> char" where
  "ascii_lowercase c = (if ascii_upper c then char_of ((of_char c :: nat) + 32) else c)"

definition normalized_type :: "string \<Rightarrow> string" where
  "normalized_type t = (if list_all printable_ascii t then map ascii_lowercase t else [])"

text \<open>
  \<^verbatim>\<open>new Blob(parts, { type: ty })\<close>: the blob holds the parts, and its type is what the
  constructor makes of \<open>ty\<close>.
\<close>

definition new_Blob :: "payload list \<Rightarrow> string \<Rightarrow> blob_id js" where
  "new_Blob parts ty =
     raising ApiBlob (\<lambda>b.
       let i = new_blob b in
       (Returned i,
        b\<lparr>blobs := (i, \<lparr>blob_parts = parts, blob_type = normalized_type ty\<rparr>) # blobs b,
          log := log b @ [EvNewBlob i]\<rparr>))"

text \<open>\<^verbatim>\<open>URL.createObjectURL(blob)\<close>: a new entry of the blob URL store.\<close>

definition createObjectURL :: "blob_id \<Rightarrow> object_url js" where
  "createObjectURL bl =
     raising ApiCreateObjectURL (\<lambda>b.
       let u = new_url b in
       (Returned u,
        b\<lparr>urls := (u, bl) # urls b,
          log := log b @ [EvCreateObjectURL bl u]\<rparr>))"

text \<open>\<^verbatim>\<open>document.createElement(tag)\<close>: a new node, in no document tree yet.\<close>

definition createElement :: "string \<Rightarrow> node_id js" where
  "createElement tg =
     raising ApiCreateElement (\<lambda>b.
       let n = new_node b in
       (Returned n,
        b\<lparr>nodes := (n, \<lparr>tag_name = tg, href = None, download = None\<rparr>) # nodes b,
          log := log b @ [EvCreateElement n]\<rparr>))"

text \<open>\<^verbatim>\<open>link.href = url\<close> and \<^verbatim>\<open>link.download = filename\<close>.\<close>

definition set_href :: "node_id \<Rightarrow> object_url \<Rightarrow> unit js" where
  "set_href n u =
     raising ApiSetHref (\<lambda>b.
       (Returned (),
        b\<lparr>nodes := update_node n (\<lambda>e. e\<lparr>href := Some u\<rparr>) (nodes b),
          log := log b @ [EvSetHref n u]\<rparr>))"

definition set_download :: "node_id \<Rightarrow> string \<Rightarrow> unit js" where
  "set_download n f =
     raising ApiSetDownload (\<lambda>b.
       (Returned (),
        b\<lparr>nodes := update_node n (\<lambda>e. e\<lparr>download := Some f\<rparr>) (nodes b),
          log := log b @ [EvSetDownload n f]\<rparr>))"

text \<open>
  \<^verbatim>\<open>document.body.appendChild(node)\<close>: the node becomes the last child of the body (and
  leaves the place it had there, if it had one).
\<close>

definition appendChild :: "node_id \<Rightarrow> unit js" where
  "appendChild n =
     raising ApiAppendChild (\<lambda>b.
       (Returned (),
        b\<lparr>body := filter (\<lambda>i. i \<noteq> n) (body b) @ [n],
          log := log b @ [EvAppendChild n]\<rparr>))"

text \<open>
  \<^verbatim>\<open>link.click()\<close>: the activation of an anchor that has a \<^verbatim>\<open>download\<close> attribute and an
  \<^verbatim>\<open>href\<close> the blob URL store resolves hands the blob to the save mechanism under the
  attribute's name. Any other node, or an href that resolves to nothing, saves nothing.
\<close>

definition saved_by_click :: "node_id \<Rightarrow> browser \<Rightarrow> saved_file list" where
  "saved_by_click n b =
     (case map_of (nodes b) n of
        None \<Rightarrow> []
      | Some e \<Rightarrow>
          if tag_name e \<noteq> ''a'' then []
          else
            (case (href e, download e) of
               (Some u, Some name) \<Rightarrow>
                 (case map_of (urls b) u of
                    None \<Rightarrow> []
                  | Some bl \<Rightarrow>
                      (case map_of (blobs b) bl of
                         None \<Rightarrow> []
                       | Some bb \<Rightarrow>
                           [\<lparr>save_name = name, save_type = blob_type bb,
                             save_content = blob_parts bb\<rparr>]))
             | _ \<Rightarrow> []))"

definition click :: "node_id \<Rightarrow> unit js" where
  "click n =
     raising ApiClick (\<lambda>b.
       (Returned (),
        b\<lparr>downloads := downloads b @ saved_by_click n b,
          log := log b @ [EvClick n]\<rparr>))"

text \<open>\<^verbatim>\<open>document.body.removeChild(node)\<close>: a node that is no child of the body is an error.\<close>

definition removeChild :: "node_id \<Rightarrow> unit js" where
  "removeChild n =
     raising ApiRemoveChild (\<lambda>b.
       if n \<in> set (body b)
       then (Returned (),
             b\<lparr>body := filter (\<lambda>i. i \<noteq> n) (body b),
               log := log b @ [EvRemoveChild n]\<rparr>)
       else (Threw NotFoundError, b))"

text \<open>\<^verbatim>\<open>URL.revokeObjectURL(url)\<close>: the entry leaves the blob URL store.\<close>

definition revokeObjectURL :: "object_url \<Rightarrow> unit js" where
  "revokeObjectURL u =
     raising ApiRevokeObjectURL (\<lambda>b.
       (Returned (),
        b\<lparr>urls := filter (\<lambda>(k, bl). k \<noteq> u) (urls b),
          revoked := revoked b @ [u],
          log := log b @ [EvRevokeObjectURL u]\<rparr>))"

text \<open>
  \<^verbatim>\<open>Streamlit.setComponentValue\<close> and \<^verbatim>\<open>Streamlit.setFrameHeight\<close> post a message to the
  host.
\<close>

definition post :: "host_message \<Rightarrow> browser \<Rightarrow> browser" where
  "post m b = b\<lparr>host := host b @ [m], log := log b @ [EvHost m]\<rparr>"

definition setComponentValue :: "int \<Rightarrow> unit js" where
  "setComponentValue v b = (Returned (), post (ComponentValue v) b)"

definition setFrameHeight :: "int \<Rightarrow> browser \<Rightarrow> browser" where
  "setFrameHeight h b = post (FrameHeight h) b"

section \<open>The component\<close>

text \<open>The body of \<^verbatim>\<open>triggerDownload\<close>, statement by statement.\<close>

definition triggerDownload_body :: "download_args \<Rightarrow> unit js" where
  "triggerDownload_body a =
     bind_js (new_Blob [data a] (content_type a)) (\<lambda>blob.
     bind_js (createObjectURL blob) (\<lambda>url.
     bind_js (createElement ''a'') (\<lambda>link.
     bind_js (set_href link url) (\<lambda>_.
     bind_js (set_download link (filename a)) (\<lambda>_.
     bind_js (appendChild link) (\<lambda>_.
     bind_js (click link) (\<lambda>_.
     bind_js (removeChild link) (\<lambda>_.
     bind_js (revokeObjectURL url) (\<lambda>_.
     setComponentValue 1)))))))))"

text \<open>
  \<^verbatim>\<open>triggerDownload\<close> is an \<^verbatim>\<open>async\<close> function whose body has no \<^verbatim>\<open>await\<close>: a call runs the
  whole body at once and returns a promise that is already settled, fulfilled when the
  body returned and rejected with what it threw. The call itself never throws.
\<close>

definition triggerDownload :: "download_args \<Rightarrow> browser \<Rightarrow> settled \<times> browser" where
  "triggerDownload a b =
     (case triggerDownload_body a b of
        (Returned _, b') \<Rightarrow> (Fulfilled, b')
      | (Threw e, b') \<Rightarrow> (Rejected e, b'))"

text \<open>
  \<^verbatim>\<open>.then()\<close> with no handler: a job is queued that hands the settlement on to the promise
  \<^verbatim>\<open>then\<close> returns, which nobody holds. When the job runs, a rejection it hands on is an
  unhandled rejection; a fulfilment is dropped.
\<close>

definition then_no_handler :: "settled \<Rightarrow> browser \<Rightarrow> browser" where
  "then_no_handler p b = b\<lparr>microtasks := microtasks b @ [PassThrough p]\<rparr>"

fun run_job :: "job \<Rightarrow> browser \<Rightarrow> browser" where
  "run_job (PassThrough Fulfilled) b = b"
| "run_job (PassThrough (Rejected e)) b = b\<lparr>unhandled := unhandled b @ [e]\<rparr>"

definition run_microtasks :: "browser \<Rightarrow> browser" where
  "run_microtasks b = fold run_job (microtasks b) (b\<lparr>microtasks := []\<rparr>)"

text \<open>The callback given to \<^verbatim>\<open>useEffect\<close>.\<close>

definition effect :: "download_args \<Rightarrow> browser \<Rightarrow> browser" where
  "effect a b =
     (let (p, b1) = triggerDownload a b;
          b2 = then_no_handler p b1
      in setFrameHeight 0 b2)"

text \<open>
  \<^verbatim>\<open>useEffect(callback, deps)\<close>: the callback runs after the first render of an instance,
  and after a later render only when the dependencies differ from those of the render
  before. \<open>None\<close> stands for an instance that has not rendered yet.
\<close>

definition useEffect :: "(browser \<Rightarrow> browser) \<Rightarrow> 'd list \<Rightarrow> 'd list option \<Rightarrow> browser \<Rightarrow> browser" where
  "useEffect callback deps prev b =
     (case prev of
        None \<Rightarrow> callback b
      | Some d \<Rightarrow> if d = deps then b else callback b)"

text \<open>What the component returns: one \<^verbatim>\<open>div\<close> with an inline style and no children.\<close>

datatype visibility = Visible | Hidden

record style =
  visibility :: visibility
  height :: nat
  width :: nat
  padding :: nat
  margin :: nat

record react_element =
  element_type :: string
  element_style :: style
  element_children :: "string list"

definition rendered :: react_element where
  "rendered =
     \<lparr>element_type = ''div'',
      element_style = \<lparr>visibility = Hidden, height = 0, width = 0, padding = 0, margin = 0\<rparr>,
      element_children = []\<rparr>"

text \<open>
  One render of the component: the element it returns, the dependencies its effect
  stored (the empty array), and the browser after the effect, if it ran, and after the
  jobs the effect queued.
\<close>

definition Downloader ::
    "'th component_props \<Rightarrow> unit list option \<Rightarrow> browser \<Rightarrow> react_element \<times> unit list option \<times> browser" where
  "Downloader props prev b =
     (let a = args props; d = disabled props; t = theme props in
        (rendered, Some [], run_microtasks (useEffect (effect a) [] prev b)))"

definition mount :: "'th component_props \<Rightarrow> browser \<Rightarrow> react_element \<times> unit list option \<times> browser" where
  "mount props b = Downloader props None b"

text \<open>Renders of a mounted instance with new props, one after the other.\<close>

fun rerenders :: "'th component_props list \<Rightarrow> unit list option \<Rightarrow> browser \<Rightarrow> unit list option \<times> browser" where
  "rerenders [] h b = (h, b)"
| "rerenders (p # ps) h b = (case Downloader p h b of (_, h', b') \<Rightarrow> rerenders ps h' b')"

text \<open>
  The browser after a mount, and after a mount followed by renders of the same instance
  with other props.
\<close>

definition mounted :: "'th component_props \<Rightarrow> browser \<Rightarrow> browser" where
  "mounted props b = snd (snd (mount props b))"

definition mounted_then_rerendered ::
    "'th component_props \<Rightarrow> 'th component_props list \<Rightarrow> browser \<Rightarrow> browser" where
  "mounted_then_rerendered props ps b =
     (case mount props b of (_, h, b') \<Rightarrow> snd (rerenders ps h b'))"

text \<open>The component mounted again and again, each time as a new instance.\<close>

fun remounts :: "'th component_props list \<Rightarrow> browser \<Rightarrow> browser" where
  "remounts [] b = b"
| "remounts (p # ps) b = remounts ps (mounted p b)"

section \<open>What is observed\<close>

text \<open>
  The nodes clicked, the values and the frame heights sent to the host, and the errors a
  job queue hands to nobody, each in order.
\<close>

fun clicks :: "event list \<Rightarrow> node_id list" where
  "clicks [] = []"
| "clicks (EvClick n # es) = n # clicks es"
| "clicks (_ # es) = clicks es"

fun component_values :: "host_message list \<Rightarrow> int list" where
  "component_values [] = []"
| "component_values (ComponentValue v # ms) = v # component_values ms"
| "component_values (FrameHeight _ # ms) = component_values ms"

fun frame_heights :: "host_message list \<Rightarrow> int list" where
  "frame_heights [] = []"
| "frame_heights (FrameHeight h # ms) = h # frame_heights ms"
| "frame_heights (ComponentValue _ # ms) = frame_heights ms"

fun rejections :: "job list \<Rightarrow> error list" where
  "rejections [] = []"
| "rejections (PassThrough Fulfilled # js) = rejections js"
| "rejections (PassThrough (Rejected e) # js) = e # rejections js"

text \<open>\<open>before x y es\<close>: \<open>x\<close> occurs in \<open>es\<close>, and \<open>y\<close> occurs later than the first \<open>x\<close>.\<close>

definition before :: "'a \<Rightarrow> 'a \<Rightarrow> 'a list \<Rightarrow> bool" where
  "before x y es = (y \<in> set (drop 1 (dropWhile (\<lambda>e. e \<noteq> x) es)))"

text \<open>
  The five steps the operation is described by, and the step a logged call belongs to;
  building the anchor, attaching it and detaching it are not among the five.
\<close>

datatype step = ConstructBlob | CreateURL | ClickAnchor | RevokeURL | NotifyHost

fun steps :: "event list \<Rightarrow> step list" where
  "steps [] = []"
| "steps (EvNewBlob _ # es) = ConstructBlob # steps es"
| "steps (EvCreateObjectURL _ _ # es) = CreateURL # steps es"
| "steps (EvClick _ # es) = ClickAnchor # steps es"
| "steps (EvRevokeObjectURL _ # es) = RevokeURL # steps es"
| "steps (EvHost (ComponentValue _) # es) = NotifyHost # steps es"
| "steps (_ # es) = steps es"


text \<open>
  The width and height of the box an element with this style takes in the layout:
  content, padding and margin (a \<^verbatim>\<open>div\<close> has no border of its own).
\<close>

definition box_width :: "style \<Rightarrow> nat" where
  "box_width st = margin st + padding st + width st + padding st + margin st"

definition box_height :: "style \<Rightarrow> nat" where
  "box_height st = margin st + padding st + height st + padding st + margin st"

section \<open>Example inputs\<close>

definition csv_args :: download_args where
  "csv_args = \<lparr>data = StringData ''a,b'', filename = ''report.csv'', content_type = ''text/csv''\<rparr>"



definition csv_props :: "string component_props" where
  "csv_props = \<lparr>args = csv_args, disabled = False, theme = None\<rparr>"

definition csv_props_dark :: "string component_props" where
  "csv_props_dark = \<lparr>args = csv_args, disabled = True, theme = Some ''dark''\<rparr>"

definition pdf_props :: "string component_props" where
  "pdf_props =
     \<lparr>args = \<lparr>data = ByteData [37, 80, 68, 70], filename = ''a.pdf'',
               content_type = ''application/pdf''\<rparr>,
      disabled = False, theme = None\<rparr>"

text \<open>A page that already has a node in its body, a blob and a URL for it.\<close>

definition page :: browser where
  "page =
     \<lparr>blobs = [(1, \<lparr>blob_parts = [StringData ''old''], blob_type = ''text/plain''\<rparr>)],
      urls = [(3, 1)],
      revoked = [],
      nodes = [(2, \<lparr>tag_name = ''div'', href = None, download = None\<rparr>)],
      body = [2],
      downloads = [], host = [], log = [],
      faulty = {}, microtasks = [], unhandled = []\<rparr>"

text \<open>The same page in a browser where \<^verbatim>\<open>click\<close> raises.\<close>

definition broken_page :: browser where
  "broken_page = page\<lparr>faulty := {ApiClick}\<rparr>"

section \<open>Fresh identities\<close>

lemma fold_max_ge: "a \<le> fold max ks (a::nat)"
proof (induction ks arbitrary: a)
  case Nil then show ?case by simp
next
  case (Cons x xs)
  have "a \<le> max x a" by simp
  also have "\<dots> \<le> fold max xs (max x a)" by (rule Cons.IH)
  finally show ?case by simp
qed

lemma fold_max_mem: "k \<in> set ks \<Longrightarrow> k \<le> fold max ks (a::nat)"
proof (induction ks arbitrary: a)
  case Nil then show ?case by simp
next
  case (Cons x xs)
  show ?case
  proof (cases "k = x")
    case True
    have "max x a \<le> fold max xs (max x a)" by (rule fold_max_ge)
    with True show ?thesis by simp
  next
    case False
    with Cons show ?thesis by simp
  qed
qed

lemma fresh_notin: "fresh ks \<notin> set ks"
  using fold_max_mem[of "fresh ks" ks 0] by (auto simp: fresh_def)

lemma new_url_notin: "new_url b \<notin> set (map fst (urls b))"
  using fresh_notin[of "map fst (urls b) @ revoked b"] by (simp add: new_url_def)

lemma new_node_notin_nodes: "new_node b \<notin> set (map fst (nodes b))"
  using fresh_notin[of "map fst (nodes b) @ body b"] by (simp add: new_node_def)

lemma new_node_notin_body: "new_node b \<notin> set (body b)"
  using fresh_notin[of "map fst (nodes b) @ body b"] by (simp add: new_node_def)

lemma update_node_other: "n \<notin> set (map fst ns) \<Longrightarrow> update_node n f ns = ns"
  by (induction ns) (auto simp: update_node_def)

lemma update_node_head: "update_node n f ((n, e) # ns) = (n, f e) # update_node n f ns"
  by (simp add: update_node_def)

lemma filter_other: "n \<notin> set xs \<Longrightarrow> filter (\<lambda>i. i \<noteq> n) xs = xs"
  by (induction xs) auto

lemma revoke_other: "u \<notin> set (map fst us) \<Longrightarrow> filter (\<lambda>(k, bl). k \<noteq> u) us = us"
  by (induction us) auto

section \<open>The type of a blob\<close>



section \<open>Observations of a longer list\<close>

lemma clicks_append: "clicks (xs @ ys) = clicks xs @ clicks ys"
  by (induction xs rule: clicks.induct) simp_all

lemma component_values_append:
  "component_values (xs @ ys) = component_values xs @ component_values ys"
  by (induction xs rule: component_values.induct) simp_all

lemma frame_heights_append: "frame_heights (xs @ ys) = frame_heights xs @ frame_heights ys"
  by (induction xs rule: frame_heights.induct) simp_all

section \<open>The job queue\<close>

lemma fold_run_job: "fold run_job js b = b\<lparr>unhandled := unhandled b @ rejections js\<rparr>"
  by (induction js arbitrary: b rule: rejections.induct) simp_all

lemma run_microtasks_eq:
  "run_microtasks b = b\<lparr>microtasks := [], unhandled := unhandled b @ rejections (microtasks b)\<rparr>"
  by (simp add: run_microtasks_def fold_run_job)

lemma rejections_snoc: "rejections (js @ [PassThrough p]) =
    rejections js @ (case p of Fulfilled \<Rightarrow> [] | Rejected e \<Rightarrow> [e])"
  by (induction js rule: rejections.induct) (simp_all split: settled.split)

section \<open>The operation when no call raises, and when one does\<close>

lemmas api_defs =
  bind_js_def raising_def new_Blob_def createObjectURL_def createElement_def set_href_def
  set_download_def appendChild_def click_def removeChild_def revokeObjectURL_def
  setComponentValue_def post_def

lemma triggerDownload_body_ok:
  assumes "faulty b = {}"
  shows "triggerDownload_body a b =
    (Returned (),
     b\<lparr>blobs := (new_blob b, \<lparr>blob_parts = [data a], blob_type = normalized_type (content_type a)\<rparr>)
                # blobs b,
       revoked := revoked b @ [new_url b],
       nodes := (new_node b,
                 \<lparr>tag_name = ''a'', href = Some (new_url b), download = Some (filename a)\<rparr>)
                # nodes b,
       downloads := downloads b @
         [\<lparr>save_name = filename a, save_type = normalized_type (content_type a),
           save_content = [data a]\<rparr>],
       host := host b @ [ComponentValue 1],
       log := log b @
         [EvNewBlob (new_blob b),
          EvCreateObjectURL (new_blob b) (new_url b),
          EvCreateElement (new_node b),
          EvSetHref (new_node b) (new_url b),
          EvSetDownload (new_node b) (filename a),
          EvAppendChild (new_node b),
          EvClick (new_node b),
          EvRemoveChild (new_node b),
          EvRevokeObjectURL (new_url b),
          EvHost (ComponentValue 1)]\<rparr>)"
proof -
  have ids: "new_blob (b\<lparr>log := l\<rparr>) = new_blob b" for l
    by (simp add: new_blob_def)
  have "new_url (b\<lparr>blobs := bs, log := l\<rparr>) = new_url b" for bs l
    by (simp add: new_url_def)
  moreover have "new_node (b\<lparr>blobs := bs, urls := us, log := l\<rparr>) = new_node b" for bs us l
    by (simp add: new_node_def)
  ultimately show ?thesis
    using assms new_url_notin[of b] new_node_notin_nodes[of b] new_node_notin_body[of b]
    by (simp add: triggerDownload_body_def api_defs saved_by_click_def Let_def
        update_node_head update_node_other filter_other revoke_other)
qed

lemma triggerDownload_body_fault:
  assumes "k \<in> faulty b"
  shows "\<exists>e b1. triggerDownload_body a b = (Threw e, b1) \<and> host b1 = host b
            \<and> faulty b1 = faulty b \<and> microtasks b1 = microtasks b \<and> unhandled b1 = unhandled b"
  using assms
  by (cases k) (auto simp: triggerDownload_body_def api_defs Let_def)

section \<open>Mounting\<close>

lemma triggerDownload_ok:
  assumes "faulty b = {}"
  shows "triggerDownload a b =
    (Fulfilled,
     b\<lparr>blobs := (new_blob b, \<lparr>blob_parts = [data a], blob_type = normalized_type (content_type a)\<rparr>)
                # blobs b,
       revoked := revoked b @ [new_url b],
       nodes := (new_node b,
                 \<lparr>tag_name = ''a'', href = Some (new_url b), download = Some (filename a)\<rparr>)
                # nodes b,
       downloads := downloads b @
         [\<lparr>save_name = filename a, save_type = normalized_type (content_type a),
           save_content = [data a]\<rparr>],
       host := host b @ [ComponentValue 1],
       log := log b @
         [EvNewBlob (new_blob b),
          EvCreateObjectURL (new_blob b) (new_url b),
          EvCreateElement (new_node b),
          EvSetHref (new_node b) (new_url b),
          EvSetDownload (new_node b) (filename a),
          EvAppendChild (new_node b),
          EvClick (new_node b),
          EvRemoveChild (new_node b),
          EvRevokeObjectURL (new_url b),
          EvHost (ComponentValue 1)]\<rparr>)"
  by (simp add: triggerDownload_def triggerDownload_body_ok[OF assms])

lemma triggerDownload_fault:
  assumes "k \<in> faulty b"
  shows "\<exists>e b1. triggerDownload a b = (Rejected e, b1) \<and> host b1 = host b
            \<and> faulty b1 = faulty b \<and> microtasks b1 = microtasks b \<and> unhandled b1 = unhandled b"
proof -
  from triggerDownload_body_fault[OF assms, of a] obtain e b1 where
    "triggerDownload_body a b = (Threw e, b1)" "host b1 = host b" "faulty b1 = faulty b"
    "microtasks b1 = microtasks b" "unhandled b1 = unhandled b"
    by blast
  then show ?thesis by (simp add: triggerDownload_def)
qed

lemma fulfilled_no_fault:
  assumes "fst (triggerDownload a b) = Fulfilled"
  shows "faulty b = {}"
proof (rule ccontr)
  assume "faulty b \<noteq> {}"
  then obtain k where "k \<in> faulty b" by blast
  from triggerDownload_fault[OF this, of a] assms show False by auto
qed

lemma mount_eq:
  "mount p b = (rendered, Some [], run_microtasks (effect (args p) b))"
  by (simp add: mount_def Downloader_def useEffect_def Let_def)

lemma mounted_eq: "mounted p b = run_microtasks (effect (args p) b)"
  by (simp add: mounted_def mount_eq)

lemma effect_ok:
  assumes "faulty b = {}"
  shows "effect a b =
     b\<lparr>blobs := (new_blob b, \<lparr>blob_parts = [data a], blob_type = normalized_type (content_type a)\<rparr>)
                # blobs b,
       revoked := revoked b @ [new_url b],
       nodes := (new_node b,
                 \<lparr>tag_name = ''a'', href = Some (new_url b), download = Some (filename a)\<rparr>)
                # nodes b,
       downloads := downloads b @
         [\<lparr>save_name = filename a, save_type = normalized_type (content_type a),
           save_content = [data a]\<rparr>],
       host := host b @ [ComponentValue 1, FrameHeight 0],
       log := log b @
         [EvNewBlob (new_blob b),
          EvCreateObjectURL (new_blob b) (new_url b),
          EvCreateElement (new_node b),
          EvSetHref (new_node b) (new_url b),
          EvSetDownload (new_node b) (filename a),
          EvAppendChild (new_node b),
          EvClick (new_node b),
          EvRemoveChild (new_node b),
          EvRevokeObjectURL (new_url b),
          EvHost (ComponentValue 1),
          EvHost (FrameHeight 0)],
       microtasks := microtasks b @ [PassThrough Fulfilled]\<rparr>"
  by (simp add: effect_def triggerDownload_ok[OF assms] then_no_handler_def setFrameHeight_def
      post_def)

lemma rerenders_mounted:
  "rerenders ps (Some []) b = (Some [], if ps = [] then b else run_microtasks b)"
proof (induction ps arbitrary: b)
  case Nil
  show ?case by simp
next
  case (Cons p ps)
  have "run_microtasks (run_microtasks b) = run_microtasks b"
    by (simp add: run_microtasks_eq)
  with Cons show ?case
    by (simp add: Downloader_def useEffect_def Let_def)
qed

lemma mounted_then_rerendered_eq: "mounted_then_rerendered p ps b = mounted p b"
  by (simp add: mounted_then_rerendered_def mount_eq mounted_eq rerenders_mounted
      run_microtasks_eq)

lemma mounted_faulty: "faulty b = {} \<Longrightarrow> faulty (mounted p b) = {}"
  by (simp add: mounted_eq effect_ok run_microtasks_eq)

lemma mounted_urls: "faulty b = {} \<Longrightarrow> urls (mounted p b) = urls b"
  by (simp add: mounted_eq effect_ok run_microtasks_eq)

lemma remounts_urls: "faulty b = {} \<Longrightarrow> urls (remounts ps b) = urls b"
  by (induction ps arbitrary: b) (simp_all add: mounted_faulty mounted_urls)

lemma remounts_body: "faulty b = {} \<Longrightarrow> body (remounts ps b) = body b"
proof (induction ps arbitrary: b)
  case Nil
  show ?case by simp
next
  case (Cons p ps)
  have "body (mounted p b) = body b"
    using Cons.prems by (simp add: mounted_eq effect_ok run_microtasks_eq)
  with Cons show ?case by (simp add: mounted_faulty)
qed

section \<open>The example inputs evaluated\<close>

lemma csv_args_simps:
  "data csv_args = StringData ''a,b''" "filename csv_args = ''report.csv''"
  "content_type csv_args = ''text/csv''"
  by (simp_all add: csv_args_def)



lemma example_types:
  "normalized_type ''text/csv'' = ''text/csv''"
  "normalized_type ''application/pdf'' = ''application/pdf''"
  "normalized_type ''no mime type'' = ''no mime type''"
  "normalized_type ''Text/CSV'' = ''text/csv''"
  by code_simp+

lemma page_ids: "new_blob page = 2" "new_url page = 4" "new_node page = 3"
  by (simp_all add: page_def new_blob_def new_url_def new_node_def fresh_def)

lemma page_faulty: "faulty page = {}"
  by (simp add: page_def)

lemma broken_page_simps:
  "faulty broken_page = {ApiClick}" "host broken_page = []" "unhandled broken_page = []"
  "microtasks broken_page = []"
  by (simp_all add: broken_page_def page_def)

section \<open>The claims\<close>

text \<open>
  C1. In a browser where no call raises, mounting the component clicks exactly one node,
  the anchor the operation has just built, whose \<^verbatim>\<open>href\<close> is the new object URL and whose
  \<^verbatim>\<open>download\<close> attribute is the file name; exactly one file, with the given name and
  data and the type of the blob, is handed to the save mechanism. Later renders of the mounted instance, with
  whatever props, click nothing more and save nothing more.
\<close>

theorem mount_triggers_one_download:
  assumes "faulty b = {}"
  shows "clicks (log (mounted p b)) = clicks (log b) @ [new_node b]
    \<and> map_of (nodes (mounted p b)) (new_node b) =
        Some \<lparr>tag_name = ''a'', href = Some (new_url b), download = Some (filename (args p))\<rparr>
    \<and> downloads (mounted p b) = downloads b @
        [\<lparr>save_name = filename (args p), save_type = normalized_type (content_type (args p)),
          save_content = [data (args p)]\<rparr>]
    \<and> clicks (log (mounted_then_rerendered p ps b)) = clicks (log b) @ [new_node b]
    \<and> downloads (mounted_then_rerendered p ps b) = downloads (mounted p b)"
  using assms
  by (simp add: mounted_then_rerendered_eq mounted_eq effect_ok run_microtasks_eq clicks_append)

theorem mount_triggers_one_download_witness:
  "faulty page = {}
    \<and> clicks (log (mounted csv_props page)) = [3]
    \<and> map_of (nodes (mounted csv_props page)) 3 =
        Some \<lparr>tag_name = ''a'', href = Some 4, download = Some ''report.csv''\<rparr>
    \<and> downloads (mounted csv_props page) =
        [\<lparr>save_name = ''report.csv'', save_type = ''text/csv'',
          save_content = [StringData ''a,b'']\<rparr>]
    \<and> clicks (log (mounted_then_rerendered csv_props [pdf_props, csv_props_dark] page)) = [3]
    \<and> downloads (mounted_then_rerendered csv_props [pdf_props, csv_props_dark] page) =
        downloads (mounted csv_props page)"
  using mount_triggers_one_download[OF page_faulty, of csv_props "[pdf_props, csv_props_dark]"]
  by (simp add: page_ids page_faulty csv_props_def csv_args_simps example_types)
    (simp add: page_def)

text \<open>
  C2. In a browser where no call raises, the operation leaves the blob URL store as it
  found it: the object URL it created for the payload is revoked, and is no key of the
  store when the operation ends. In the calls the operation made, the URL is created
  before the click, revoked after the click and before the host is notified, which is the
  operation's last call. Mounting the component any number of times leaves the store as
  it was before the first mount.
\<close>

theorem object_url_revoked:
  assumes "faulty b = {}"
  shows "urls (snd (triggerDownload a b)) = urls b
    \<and> new_url b \<notin> set (map fst (urls (snd (triggerDownload a b))))
    \<and> revoked (snd (triggerDownload a b)) = revoked b @ [new_url b]
    \<and> before (EvCreateObjectURL (new_blob b) (new_url b)) (EvClick (new_node b))
         (drop (length (log b)) (log (snd (triggerDownload a b))))
    \<and> before (EvClick (new_node b)) (EvRevokeObjectURL (new_url b))
         (drop (length (log b)) (log (snd (triggerDownload a b))))
    \<and> before (EvRevokeObjectURL (new_url b)) (EvHost (ComponentValue 1))
         (drop (length (log b)) (log (snd (triggerDownload a b))))
    \<and> urls (remounts ps b) = urls b"
  using assms new_url_notin[of b]
  by (simp add: triggerDownload_ok remounts_urls before_def)

theorem object_url_revoked_witness:
  "faulty page = {}
    \<and> urls (snd (triggerDownload csv_args page)) = [(3, 1)]
    \<and> 4 \<notin> set (map fst (urls (snd (triggerDownload csv_args page))))
    \<and> revoked (snd (triggerDownload csv_args page)) = [4]
    \<and> before (EvCreateObjectURL 2 4) (EvClick 3) (log (snd (triggerDownload csv_args page)))
    \<and> before (EvClick 3) (EvRevokeObjectURL 4) (log (snd (triggerDownload csv_args page)))
    \<and> before (EvRevokeObjectURL 4) (EvHost (ComponentValue 1))
         (log (snd (triggerDownload csv_args page)))
    \<and> urls (remounts [csv_props, pdf_props] page) = [(3, 1)]"
  using object_url_revoked[OF page_faulty, of csv_args "[csv_props, pdf_props]"]
  by (simp add: page_ids page_faulty) (simp add: page_def)

text \<open>
  C3. Whenever the operation completes (its promise is fulfilled), the one message it has
  sent to the host is the component value 1, whatever the data, the file name and the
  content type are.
\<close>

theorem reported_value_is_one:
  assumes "fst (triggerDownload a b) = Fulfilled"
  shows "host (snd (triggerDownload a b)) = host b @ [ComponentValue 1]
    \<and> component_values (host (snd (triggerDownload a b))) = component_values (host b) @ [1]"
  using fulfilled_no_fault[OF assms]
  by (simp add: triggerDownload_ok component_values_append)

theorem reported_value_is_one_witness:
  "fst (triggerDownload csv_args page) = Fulfilled
    \<and> host (snd (triggerDownload csv_args page)) = [ComponentValue 1]
    \<and> component_values (host (snd (triggerDownload csv_args page))) = [1]"
proof -
  have f: "fst (triggerDownload csv_args page) = Fulfilled"
    by (simp add: triggerDownload_ok[OF page_faulty])
  from reported_value_is_one[OF f] f show ?thesis
    by (simp add: page_def)
qed

text \<open>
  C4. The operation performs its steps in this order: construct the blob, create the
  object URL, click the anchor, revoke the URL, notify the host. Take a browser where no
  call raises, and let one call raise in it; the operation then stops at that call, and
  the state it leaves holds what the steps before it have done and nothing of the later
  ones:
  \<^item> when the constructor raises, nothing has changed;
  \<^item> when \<^verbatim>\<open>createObjectURL\<close> raises, the blob exists and nothing else has changed;
  \<^item> when \<^verbatim>\<open>click\<close> raises, the blob exists, the URL is in the store and resolves to the
    blob, the anchor has the URL and the file name and is the last child of the body;
    nothing is saved, the URL is not revoked, the host has no message;
  \<^item> when \<^verbatim>\<open>revokeObjectURL\<close> raises, the file is saved and the anchor has left the body;
    the URL is still in the store, the host has no message;
  \<^item> when nothing raises, the URL has left the store as revoked and the host has the
    value 1.
  The calls logged are, in each case, those made up to the stop, in the order of the
  source; of the five steps, the full run logs construct, create the URL, click, revoke,
  notify.
\<close>

theorem operation_order:
  assumes "faulty b = {}"
  shows "triggerDownload a (b\<lparr>faulty := {ApiBlob}\<rparr>) =
      (Rejected (BrowserError ApiBlob), b\<lparr>faulty := {ApiBlob}\<rparr>)
    \<and> triggerDownload a (b\<lparr>faulty := {ApiCreateObjectURL}\<rparr>) =
      (Rejected (BrowserError ApiCreateObjectURL),
       b\<lparr>blobs := (new_blob b,
                   \<lparr>blob_parts = [data a], blob_type = normalized_type (content_type a)\<rparr>)
                  # blobs b,
         log := log b @ [EvNewBlob (new_blob b)],
         faulty := {ApiCreateObjectURL}\<rparr>)
    \<and> triggerDownload a (b\<lparr>faulty := {ApiClick}\<rparr>) =
      (Rejected (BrowserError ApiClick),
       b\<lparr>blobs := (new_blob b,
                   \<lparr>blob_parts = [data a], blob_type = normalized_type (content_type a)\<rparr>)
                  # blobs b,
         urls := (new_url b, new_blob b) # urls b,
         nodes := (new_node b,
                   \<lparr>tag_name = ''a'', href = Some (new_url b), download = Some (filename a)\<rparr>)
                  # nodes b,
         body := body b @ [new_node b],
         log := log b @
           [EvNewBlob (new_blob b),
            EvCreateObjectURL (new_blob b) (new_url b),
            EvCreateElement (new_node b),
            EvSetHref (new_node b) (new_url b),
            EvSetDownload (new_node b) (filename a),
            EvAppendChild (new_node b)],
         faulty := {ApiClick}\<rparr>)
    \<and> triggerDownload a (b\<lparr>faulty := {ApiRevokeObjectURL}\<rparr>) =
      (Rejected (BrowserError ApiRevokeObjectURL),
       b\<lparr>blobs := (new_blob b,
                   \<lparr>blob_parts = [data a], blob_type = normalized_type (content_type a)\<rparr>)
                  # blobs b,
         urls := (new_url b, new_blob b) # urls b,
         nodes := (new_node b,
                   \<lparr>tag_name = ''a'', href = Some (new_url b), download = Some (filename a)\<rparr>)
                  # nodes b,
         downloads := downloads b @
           [\<lparr>save_name = filename a, save_type = normalized_type (content_type a),
             save_content = [data a]\<rparr>],
         log := log b @
           [EvNewBlob (new_blob b),
            EvCreateObjectURL (new_blob b) (new_url b),
            EvCreateElement (new_node b),
            EvSetHref (new_node b) (new_url b),
            EvSetDownload (new_node b) (filename a),
            EvAppendChild (new_node b),
            EvClick (new_node b),
            EvRemoveChild (new_node b)],
         faulty := {ApiRevokeObjectURL}\<rparr>)
    \<and> triggerDownload a b =
      (Fulfilled,
       b\<lparr>blobs := (new_blob b,
                   \<lparr>blob_parts = [data a], blob_type = normalized_type (content_type a)\<rparr>)
                  # blobs b,
         revoked := revoked b @ [new_url b],
         nodes := (new_node b,
                   \<lparr>tag_name = ''a'', href = Some (new_url b), download = Some (filename a)\<rparr>)
                  # nodes b,
         downloads := downloads b @
           [\<lparr>save_name = filename a, save_type = normalized_type (content_type a),
             save_content = [data a]\<rparr>],
         host := host b @ [ComponentValue 1],
         log := log b @
           [EvNewBlob (new_blob b),
            EvCreateObjectURL (new_blob b) (new_url b),
            EvCreateElement (new_node b),
            EvSetHref (new_node b) (new_url b),
            EvSetDownload (new_node b) (filename a),
            EvAppendChild (new_node b),
            EvClick (new_node b),
            EvRemoveChild (new_node b),
            EvRevokeObjectURL (new_url b),
            EvHost (ComponentValue 1)]\<rparr>)
    \<and> steps (drop (length (log b)) (log (snd (triggerDownload a b)))) =
         [ConstructBlob, CreateURL, ClickAnchor, RevokeURL, NotifyHost]"
proof -
  have blob: "triggerDownload a (b\<lparr>faulty := {ApiBlob}\<rparr>) =
      (Rejected (BrowserError ApiBlob), b\<lparr>faulty := {ApiBlob}\<rparr>)"
    by (simp add: triggerDownload_def triggerDownload_body_def api_defs)
  have url: "triggerDownload a (b\<lparr>faulty := {ApiCreateObjectURL}\<rparr>) =
      (Rejected (BrowserError ApiCreateObjectURL),
       b\<lparr>blobs := (new_blob b,
                   \<lparr>blob_parts = [data a], blob_type = normalized_type (content_type a)\<rparr>)
                  # blobs b,
         log := log b @ [EvNewBlob (new_blob b)],
         faulty := {ApiCreateObjectURL}\<rparr>)"
    by (simp add: triggerDownload_def triggerDownload_body_def api_defs Let_def new_blob_def)
  note ids = new_blob_def new_url_def new_node_def
  have click: "triggerDownload a (b\<lparr>faulty := {ApiClick}\<rparr>) =
      (Rejected (BrowserError ApiClick),
       b\<lparr>blobs := (new_blob b,
                   \<lparr>blob_parts = [data a], blob_type = normalized_type (content_type a)\<rparr>)
                  # blobs b,
         urls := (new_url b, new_blob b) # urls b,
         nodes := (new_node b,
                   \<lparr>tag_name = ''a'', href = Some (new_url b), download = Some (filename a)\<rparr>)
                  # nodes b,
         body := body b @ [new_node b],
         log := log b @
           [EvNewBlob (new_blob b),
            EvCreateObjectURL (new_blob b) (new_url b),
            EvCreateElement (new_node b),
            EvSetHref (new_node b) (new_url b),
            EvSetDownload (new_node b) (filename a),
            EvAppendChild (new_node b)],
         faulty := {ApiClick}\<rparr>)"
    using new_node_notin_nodes[of b] new_node_notin_body[of b]
    by (simp add: triggerDownload_def triggerDownload_body_def api_defs Let_def ids
        update_node_head update_node_other filter_other)
  have revoke: "triggerDownload a (b\<lparr>faulty := {ApiRevokeObjectURL}\<rparr>) =
      (Rejected (BrowserError ApiRevokeObjectURL),
       b\<lparr>blobs := (new_blob b,
                   \<lparr>blob_parts = [data a], blob_type = normalized_type (content_type a)\<rparr>)
                  # blobs b,
         urls := (new_url b, new_blob b) # urls b,
         nodes := (new_node b,
                   \<lparr>tag_name = ''a'', href = Some (new_url b), download = Some (filename a)\<rparr>)
                  # nodes b,
         downloads := downloads b @
           [\<lparr>save_name = filename a, save_type = normalized_type (content_type a),
             save_content = [data a]\<rparr>],
         log := log b @
           [EvNewBlob (new_blob b),
            EvCreateObjectURL (new_blob b) (new_url b),
            EvCreateElement (new_node b),
            EvSetHref (new_node b) (new_url b),
            EvSetDownload (new_node b) (filename a),
            EvAppendChild (new_node b),
            EvClick (new_node b),
            EvRemoveChild (new_node b)],
         faulty := {ApiRevokeObjectURL}\<rparr>)"
    using new_node_notin_nodes[of b] new_node_notin_body[of b]
    by (simp add: triggerDownload_def triggerDownload_body_def api_defs Let_def ids
        saved_by_click_def update_node_head update_node_other filter_other)
  from blob url click revoke show ?thesis
    by (simp add: triggerDownload_ok[OF assms])
qed

theorem operation_order_witness:
  "faulty page = {}
    \<and> triggerDownload csv_args (page\<lparr>faulty := {ApiBlob}\<rparr>) =
      (Rejected (BrowserError ApiBlob), page\<lparr>faulty := {ApiBlob}\<rparr>)
    \<and> triggerDownload csv_args (page\<lparr>faulty := {ApiClick}\<rparr>) =
      (Rejected (BrowserError ApiClick),
       page\<lparr>blobs := (2, \<lparr>blob_parts = [StringData ''a,b''], blob_type = ''text/csv''\<rparr>)
                     # blobs page,
         urls := (4, 2) # urls page,
         nodes := (3, \<lparr>tag_name = ''a'', href = Some 4, download = Some ''report.csv''\<rparr>)
                  # nodes page,
         body := body page @ [3],
         log := log page @
           [EvNewBlob 2, EvCreateObjectURL 2 4, EvCreateElement 3, EvSetHref 3 4,
            EvSetDownload 3 ''report.csv'', EvAppendChild 3],
         faulty := {ApiClick}\<rparr>)
    \<and> triggerDownload csv_args page =
      (Fulfilled,
       page\<lparr>blobs := (2, \<lparr>blob_parts = [StringData ''a,b''], blob_type = ''text/csv''\<rparr>)
                     # blobs page,
         revoked := revoked page @ [4],
         nodes := (3, \<lparr>tag_name = ''a'', href = Some 4, download = Some ''report.csv''\<rparr>)
                  # nodes page,
         downloads := downloads page @
           [\<lparr>save_name = ''report.csv'', save_type = ''text/csv'',
             save_content = [StringData ''a,b'']\<rparr>],
         host := host page @ [ComponentValue 1],
         log := log page @
           [EvNewBlob 2, EvCreateObjectURL 2 4, EvCreateElement 3, EvSetHref 3 4,
            EvSetDownload 3 ''report.csv'', EvAppendChild 3, EvClick 3, EvRemoveChild 3,
            EvRevokeObjectURL 4, EvHost (ComponentValue 1)]\<rparr>)
    \<and> steps (log (snd (triggerDownload csv_args page))) =
         [ConstructBlob, CreateURL, ClickAnchor, RevokeURL, NotifyHost]"
proof -
  have l: "log page = []"
    by (simp add: page_def)
  from operation_order[OF page_faulty, of csv_args] page_faulty l show ?thesis
    by (simp add: page_ids csv_args_simps example_types)
qed

text \<open>
  C6. When some browser call raises in this browser, the component still renders the
  same element, and the only message a mount sends to the host is the request for frame
  height 0: no component value and no error is reported. The promise of the operation is
  rejected, and the rejection is handled by nobody: it ends among the unhandled
  rejections of the browser.
\<close>

theorem browser_failure_not_reported:
  assumes "k \<in> faulty b"
  shows "fst (mount p b) = rendered
    \<and> host (mounted p b) = host b @ [FrameHeight 0]
    \<and> component_values (host (mounted p b)) = component_values (host b)
    \<and> (\<exists>e. fst (triggerDownload (args p) b) = Rejected e
          \<and> unhandled (mounted p b) = unhandled b @ rejections (microtasks b) @ [e])"
proof -
  from triggerDownload_fault[OF assms, of "args p"] obtain e b1 where
    t: "triggerDownload (args p) b = (Rejected e, b1)" and
    h: "host b1 = host b" "microtasks b1 = microtasks b" "unhandled b1 = unhandled b"
    by blast
  have "effect (args p) b =
      b1\<lparr>host := host b @ [FrameHeight 0], log := log b1 @ [EvHost (FrameHeight 0)],
         microtasks := microtasks b @ [PassThrough (Rejected e)]\<rparr>"
    by (simp add: effect_def t h then_no_handler_def setFrameHeight_def post_def)
  then show ?thesis
    by (simp add: mount_eq mounted_eq run_microtasks_eq t h rejections_snoc
        component_values_append)
qed

theorem browser_failure_not_reported_witness:
  "ApiClick \<in> faulty broken_page
    \<and> fst (mount csv_props broken_page) = rendered
    \<and> host (mounted csv_props broken_page) = [FrameHeight 0]
    \<and> component_values (host (mounted csv_props broken_page)) = []
    \<and> (\<exists>e. fst (triggerDownload (args csv_props) broken_page) = Rejected e
          \<and> unhandled (mounted csv_props broken_page) = [e])"
proof -
  have f: "ApiClick \<in> faulty broken_page"
    by (simp add: broken_page_simps)
  from browser_failure_not_reported[OF f, of csv_props] f show ?thesis
    by (simp add: broken_page_simps)
qed

text \<open>
  C7. For every props, hook state and browser, the component renders one \<^verbatim>\<open>div\<close> without
  children, hidden, whose box is 0 wide and 0 high; and a mount asks the host for exactly
  one frame height, 0, whether or not a browser call raises.
\<close>

theorem renders_nothing_visible:
  "fst (Downloader p h b) = rendered
    \<and> element_type rendered = ''div''
    \<and> element_children rendered = []
    \<and> visibility (element_style rendered) = Hidden
    \<and> box_width (element_style rendered) = 0
    \<and> box_height (element_style rendered) = 0
    \<and> frame_heights (host (mounted p b)) = frame_heights (host b) @ [0]"
proof -
  have "frame_heights (host (mounted p b)) = frame_heights (host b) @ [0]"
  proof (cases "faulty b = {}")
    case True
    then show ?thesis
      by (simp add: mounted_eq run_microtasks_eq effect_ok frame_heights_append)
  next
    case False
    then obtain k where "k \<in> faulty b" by blast
    from triggerDownload_fault[OF this, of "args p"] obtain e b1 where
      "triggerDownload (args p) b = (Rejected e, b1)" "host b1 = host b"
      by blast
    then show ?thesis
      by (simp add: mounted_eq run_microtasks_eq effect_def then_no_handler_def
          setFrameHeight_def post_def frame_heights_append)
  qed
  then show ?thesis
    by (simp add: Downloader_def Let_def rendered_def box_width_def box_height_def)
qed

text \<open>
  C8. Two props with the same \<^verbatim>\<open>args\<close> give the same result, whatever their \<^verbatim>\<open>disabled\<close>
  and \<^verbatim>\<open>theme\<close> are: the same element, the same hook state and the same browser (so the
  same download and the same messages to the host), at a mount and at any later render.
\<close>

theorem display_flags_unused:
  assumes "args p = args q"
  shows "mount p b = mount q b \<and> Downloader p h b = Downloader q h b
    \<and> mounted p b = mounted q b"
  using assms by (simp add: mount_def mounted_def Downloader_def Let_def)

theorem display_flags_unused_witness:
  "args csv_props = args csv_props_dark
    \<and> disabled csv_props \<noteq> disabled csv_props_dark
    \<and> theme csv_props \<noteq> theme csv_props_dark
    \<and> mount csv_props page = mount csv_props_dark page
    \<and> Downloader csv_props (Some []) page = Downloader csv_props_dark (Some []) page
    \<and> mounted csv_props page = mounted csv_props_dark page"
proof -
  have e: "args csv_props = args csv_props_dark"
    by (simp add: csv_props_def csv_props_dark_def)
  from display_flags_unused[OF e, of page "Some []"] e show ?thesis
    by (simp add: csv_props_def csv_props_dark_def)
qed




text \<open>
  C10. In a browser where no call raises, the children of the document body are the same
  after the operation as before it, and the anchor the operation created is not among
  them. The anchor is appended to the body, removed after that, and removed before the
  host is notified, the operation's last call. Mounting the component any number of times
  leaves the children of the body as they were.
\<close>

theorem anchor_removed_from_body:
  assumes "faulty b = {}"
  shows "body (snd (triggerDownload a b)) = body b
    \<and> new_node b \<notin> set (body (snd (triggerDownload a b)))
    \<and> before (EvAppendChild (new_node b)) (EvRemoveChild (new_node b))
         (drop (length (log b)) (log (snd (triggerDownload a b))))
    \<and> before (EvRemoveChild (new_node b)) (EvHost (ComponentValue 1))
         (drop (length (log b)) (log (snd (triggerDownload a b))))
    \<and> body (remounts ps b) = body b"
  using assms new_node_notin_body[of b]
  by (simp add: triggerDownload_ok remounts_body before_def)

theorem anchor_removed_from_body_witness:
  "faulty page = {}
    \<and> body (snd (triggerDownload csv_args page)) = [2]
    \<and> 3 \<notin> set (body (snd (triggerDownload csv_args page)))
    \<and> before (EvAppendChild 3) (EvRemoveChild 3) (log (snd (triggerDownload csv_args page)))
    \<and> before (EvRemoveChild 3) (EvHost (ComponentValue 1))
         (log (snd (triggerDownload csv_args page)))
    \<and> body (remounts [csv_props, pdf_props] page) = [2]"
  using anchor_removed_from_body[OF page_faulty, of csv_args "[csv_props, pdf_props]"]
  by (simp add: page_ids page_faulty) (simp add: page_def)

end
